theory Spec2Isabelle
  imports Main "HOL-Library.AList"
begin

section \<open>The session registry of ssh-chat (server.go)\<close>

text \<open>
  A shallow embedding of \<^verbatim>\<open>server.go\<close>: the \<^verbatim>\<open>Server\<close> struct and its methods
  \<^verbatim>\<open>Broadcast\<close>, \<^verbatim>\<open>Add\<close>, \<^verbatim>\<open>Remove\<close>, \<^verbatim>\<open>proposeName\<close>, \<^verbatim>\<open>Rename\<close>, \<^verbatim>\<open>IsBanned\<close>,
  \<^verbatim>\<open>Ban\<close> and \<^verbatim>\<open>Unban\<close>, executed one call after the other (the mutex is then
  always free when a method asks for it, and is left out).

  \<^item> A \<^verbatim>\<open>*Client\<close> is a reference (\<open>ref\<close>); the objects the references point to live in
    a store, the field \<open>heap\<close>. Two references are the same participant exactly when
    they are equal; \<^verbatim>\<open>nil\<close> is \<open>None\<close> of \<open>ref option\<close>.
  \<^item> The Go map \<^verbatim>\<open>Clients\<close> is an association list with one entry per key, since
    \<^verbatim>\<open>Broadcast\<close> ranges over its entries. \<^verbatim>\<open>m[k] = v\<close> is \<open>AList.update\<close>,
    \<^verbatim>\<open>delete(m, k)\<close> is \<open>AList.delete\<close>, \<^verbatim>\<open>m[k]\<close> is \<open>map_of\<close>.
  \<^item> The channel \<^verbatim>\<open>client.Msg\<close> is the list of the messages sent on it, oldest first:
    a send appends to the list and returns, as it does on a channel that has room or a
    reader.
  \<^item> The \<^verbatim>\<open>*Client\<close> given to \<^verbatim>\<open>Add\<close>, \<^verbatim>\<open>Remove\<close> and \<^verbatim>\<open>Rename\<close> is not \<^verbatim>\<open>nil\<close>.
  \<^item> The goroutine that \<^verbatim>\<open>Add\<close> starts is a step of its own, \<open>Add_goroutine\<close>: \<^verbatim>\<open>Add\<close>
    records it in the field \<open>goroutines\<close> and goes on, and the step runs in whichever
    later state the scheduler picks.
  \<^item> A Go \<^verbatim>\<open>error\<close> is a value of the datatype \<open>error\<close>; \<^verbatim>\<open>nil\<close> is \<open>None\<close>.
  \<^item> \<^verbatim>\<open>time.Now()\<close> is a parameter \<open>now\<close> of the methods that read the clock; instants
    and durations are integers (nanoseconds).
\<close>

subsection \<open>Formatting\<close>

text \<open>The verb \<^verbatim>\<open>%d\<close> of \<^verbatim>\<open>fmt.Sprintf\<close>: a decimal numeral, with a minus sign when negative.\<close>

definition digit_char :: "nat \<Rightarrow> char" where
  "digit_char n = ''0123456789'' ! n"

fun digits :: "nat \<Rightarrow> string" where
  "digits n = (if n < 10 then [digit_char n] else digits (n div 10) @ [digit_char (n mod 10)])"

declare digits.simps [simp del]

definition fmt_d :: "int \<Rightarrow> string" where
  "fmt_d i = (if i < 0 then ''-'' @ digits (nat (- i)) else digits (nat i))"

text \<open>
  A Go \<^verbatim>\<open>int\<close> has 64 bits on the platforms the server is built for. \<open>int64 i\<close> is the
  value a Go \<^verbatim>\<open>int\<close> holds after an operation whose exact result is \<open>i\<close>: it wraps around.
\<close>

definition int64 :: "int \<Rightarrow> int" where
  "int64 i = (i + 2 ^ 63) mod 2 ^ 64 - 2 ^ 63"

subsection \<open>Constants\<close>

definition MAX_NAME_LENGTH :: nat where
  "MAX_NAME_LENGTH = 32"

definition HISTORY_LEN :: nat where
  "HISTORY_LEN = 20"

text \<open>
  \<^verbatim>\<open>RE_STRIP_NAME = regexp.MustCompile("[^0-9A-Za-z_]")\<close>. A Go string is a sequence of
  bytes; every byte of a character outside ASCII is at least 128, so replacing each match
  by the empty string keeps exactly the bytes of the class \<^verbatim>\<open>[0-9A-Za-z_]\<close>.
\<close>

definition name_char :: "char \<Rightarrow> bool" where
  "name_char c =
     (let n = (of_char c :: nat)
      in (48 \<le> n \<and> n \<le> 57) \<or> (65 \<le> n \<and> n \<le> 90) \<or> (97 \<le> n \<and> n \<le> 122) \<or> n = 95)"

definition RE_STRIP_NAME :: "string \<Rightarrow> string" where
  "RE_STRIP_NAME name = filter name_char name"

subsection \<open>Clients and the history buffer\<close>

type_synonym ref = nat

text \<open>
  The fields of \<^verbatim>\<open>Client\<close> that \<^verbatim>\<open>server.go\<close> reads and writes: \<^verbatim>\<open>Name\<close> and the channel
  \<^verbatim>\<open>Msg\<close>. \<open>Written\<close> collects the lines that \<^verbatim>\<open>Write\<close> and \<^verbatim>\<open>WriteLines\<close> put on the
  participant's terminal.
\<close>

record Client =
  Name :: string
  Msg :: "string list"
  Written :: "string list"

text \<open>
  Modelled from the spec: \<^verbatim>\<open>Client.Rename\<close> is not part of \<^verbatim>\<open>server.go\<close>. The spec has
  Add and Rename "update the participant's stored name".
\<close>

definition Client_Rename :: "Client \<Rightarrow> string \<Rightarrow> Client" where
  "Client_Rename c name = c\<lparr>Name := name\<rparr>"

text \<open>
  Modelled from the spec: \<^verbatim>\<open>Client.Write\<close> and \<^verbatim>\<open>Client.WriteLines\<close> are not part of
  \<^verbatim>\<open>server.go\<close>. The spec has Add "send the participant a welcome message and up to 10
  most recent history lines".
\<close>

definition Client_Write :: "Client \<Rightarrow> string \<Rightarrow> Client" where
  "Client_Write c line = c\<lparr>Written := Written c @ [line]\<rparr>"

definition Client_WriteLines :: "Client \<Rightarrow> string list \<Rightarrow> Client" where
  "Client_WriteLines c ls = c\<lparr>Written := Written c @ ls\<rparr>"

text \<open>
  Modelled from the spec: the type \<^verbatim>\<open>History\<close> with \<^verbatim>\<open>NewHistory\<close>, \<^verbatim>\<open>Add\<close> and \<^verbatim>\<open>Get\<close> is
  not part of \<^verbatim>\<open>server.go\<close>. The spec: "ordered sequence of the last N broadcast message
  strings"; "length never exceeds N; insertion order is preserved; oldest entries are
  discarded first once capacity is exceeded"; a joining participant is sent "up to 10 most
  recent history lines".
\<close>

record History =
  capacity :: nat
  entries :: "string list"

definition lastn :: "nat \<Rightarrow> 'a list \<Rightarrow> 'a list" where
  "lastn n xs = drop (length xs - n) xs"

definition NewHistory :: "nat \<Rightarrow> History" where
  "NewHistory n = \<lparr>capacity = n, entries = []\<rparr>"

definition History_Add :: "History \<Rightarrow> string \<Rightarrow> History" where
  "History_Add h entry = h\<lparr>entries := lastn (capacity h) (entries h @ [entry])\<rparr>"

definition History_Get :: "History \<Rightarrow> nat \<Rightarrow> string list" where
  "History_Get h num = lastn num (entries h)"

subsection \<open>The server\<close>

datatype error = Errorf string

fun Error :: "error \<Rightarrow> string" where
  "Error (Errorf m) = m"

text \<open>
  The fields of \<^verbatim>\<open>Server\<close> (without the ssh configuration, the \<^verbatim>\<open>done\<close> channel and the
  mutex), together with the store of the client objects and the goroutines that \<^verbatim>\<open>Add\<close>
  has started and that have not run yet, each named by the participant it writes to.
  \<^verbatim>\<open>count\<close> is a Go \<^verbatim>\<open>int\<close>, kept in range by \<open>int64\<close>. An entry of \<^verbatim>\<open>banned\<close> is a
  \<^verbatim>\<open>*time.Time\<close>: \<open>None\<close> for \<^verbatim>\<open>nil\<close>, the permanent ban.
\<close>

record Server =
  clients :: "(string \<times> ref) list"
  count :: int
  history :: History
  admins :: "string set"
  banned :: "string \<rightharpoonup> int option"
  heap :: "ref \<Rightarrow> Client"
  goroutines :: "ref list"

text \<open>
  The server that \<^verbatim>\<open>NewServer\<close> returns when the private key parses. The client objects
  are made by the connection handlers; the store \<open>h\<close> holds them, each with the name its
  connection asked for.
\<close>

definition NewServer :: "(ref \<Rightarrow> Client) \<Rightarrow> Server" where
  "NewServer h =
     \<lparr>clients = [], count = 0, history = NewHistory HISTORY_LEN,
      admins = {}, banned = Map.empty, heap = h, goroutines = []\<rparr>"

text \<open>\<^verbatim>\<open>client.Msg <- msg\<close>\<close>

definition chan_send :: "(ref \<Rightarrow> Client) \<Rightarrow> ref \<Rightarrow> string \<Rightarrow> (ref \<Rightarrow> Client)" where
  "chan_send h client msg = h(client := (h client)\<lparr>Msg := Msg (h client) @ [msg]\<rparr>)"

text \<open>The loop of \<^verbatim>\<open>Broadcast\<close> over the entries of the map.\<close>

fun deliver :: "(string \<times> ref) list \<Rightarrow> string \<Rightarrow> ref option \<Rightarrow> (ref \<Rightarrow> Client) \<Rightarrow> (ref \<Rightarrow> Client)" where
  "deliver [] msg except h = h"
| "deliver ((name, client) # rest) msg except h =
     (if except \<noteq> None \<and> Some client = except
      then deliver rest msg except h
      else deliver rest msg except (chan_send h client msg))"

definition Broadcast :: "Server \<Rightarrow> string \<Rightarrow> ref option \<Rightarrow> Server" where
  "Broadcast s msg except =
     (let s1 = s\<lparr>history := History_Add (history s) msg\<rparr>
      in s1\<lparr>heap := deliver (clients s1) msg except (heap s1)\<rparr>)"

definition proposeName :: "Server \<Rightarrow> string \<Rightarrow> string \<times> error option" where
  "proposeName s name0 =
     (let name1 = RE_STRIP_NAME name0;
          name2 = (if length name1 > MAX_NAME_LENGTH then take MAX_NAME_LENGTH name1
                   else if length name1 = 0 then ''Guest'' @ fmt_d (count s)
                   else name1)
      in if map_of (clients s) name2 \<noteq> None
         then (''Guest'' @ fmt_d (count s), Some (Errorf (name2 @ '' is not available.'')))
         else (name2, None))"

definition welcome_line :: string where
  "welcome_line = ''-> Welcome to ssh-chat. Enter /help for more.''"

definition quote :: string where
  "quote = [CHR 0x27]"

text \<open>
  The body of the goroutine that \<^verbatim>\<open>Add\<close> starts with \<^verbatim>\<open>go\<close>, run in the state \<open>s\<close> that it
  finds: \<^verbatim>\<open>s.history.Get(10)\<close> reads the buffer of that state, and the lines and the
  welcome line go to the participant's terminal. Nothing orders it against the rest of
  \<^verbatim>\<open>Add\<close> or against later calls. No method of the server writes to a terminal or reads
  what was written, so the step is taken at the moment of its one read of the buffer.
\<close>

definition Add_goroutine :: "Server \<Rightarrow> ref \<Rightarrow> Server" where
  "Add_goroutine s client =
     s\<lparr>goroutines := remove1 client (goroutines s),
       heap := (heap s)(client :=
         Client_Write (Client_WriteLines (heap s client) (History_Get (history s) 10)) welcome_line)\<rparr>"

text \<open>
  \<^verbatim>\<open>Add\<close> starts the goroutine, which is recorded as started and not yet run, and goes on
  with the registration.
\<close>

definition Add :: "Server \<Rightarrow> ref \<Rightarrow> Server" where
  "Add s client =
     (let s1 = s\<lparr>goroutines := goroutines s @ [client]\<rparr>;
          s2 = s1\<lparr>count := int64 (count s1 + 1)\<rparr>;
          (newName, err) = proposeName s2 (Name (heap s2 client));
          s3 = (case err of
                  None \<Rightarrow> s2
                | Some e \<Rightarrow> s2\<lparr>heap := chan_send (heap s2) client
                    (''-> Your name '' @ quote @ Name (heap s2 client) @ quote
                       @ '' is not available, renamed to '' @ quote @ newName @ quote
                       @ ''. Use /nick <name> to change it.'')\<rparr>);
          s4 = s3\<lparr>heap := (heap s3)(client := Client_Rename (heap s3 client) newName)\<rparr>;
          s5 = s4\<lparr>clients := AList.update (Name (heap s4 client)) client (clients s4)\<rparr>;
          num = length (clients s5)
      in Broadcast s5
           (''* '' @ Name (heap s5 client) @ '' joined. (Total connected: '' @ fmt_d (int num) @ '')'')
           (Some client))"

definition Remove :: "Server \<Rightarrow> ref \<Rightarrow> Server" where
  "Remove s client =
     (let s1 = s\<lparr>clients := AList.delete (Name (heap s client)) (clients s)\<rparr>
      in Broadcast s1 (''* '' @ Name (heap s1 client) @ '' left.'') None)"

definition Rename :: "Server \<Rightarrow> ref \<Rightarrow> string \<Rightarrow> Server" where
  "Rename s client requested =
     (let (newName, err) = proposeName s requested
      in case err of
           Some e \<Rightarrow> s\<lparr>heap := chan_send (heap s) client (''-> '' @ Error e)\<rparr>
         | None \<Rightarrow>
             (let s1 = s\<lparr>clients := AList.delete (Name (heap s client)) (clients s)\<rparr>;
                  oldName = Name (heap s1 client);
                  s2 = s1\<lparr>heap := (heap s1)(client := Client_Rename (heap s1 client) newName)\<rparr>;
                  s3 = s2\<lparr>clients := AList.update (Name (heap s2 client)) client (clients s2)\<rparr>
              in Broadcast s3 (''* '' @ oldName @ '' is now known as '' @ newName @ ''.'') None))"

subsection \<open>The ban table\<close>

definition Unban :: "Server \<Rightarrow> string \<Rightarrow> Server" where
  "Unban s fingerprint = s\<lparr>banned := (banned s)(fingerprint := None)\<rparr>"

definition Ban :: "Server \<Rightarrow> string \<Rightarrow> int option \<Rightarrow> int \<Rightarrow> Server" where
  "Ban s fingerprint duration now =
     (let until = (case duration of None \<Rightarrow> None | Some d \<Rightarrow> Some (now + d))
      in s\<lparr>banned := (banned s)(fingerprint \<mapsto> until)\<rparr>)"

definition IsBanned :: "Server \<Rightarrow> string \<Rightarrow> int \<Rightarrow> bool \<times> Server" where
  "IsBanned s fingerprint now =
     (case banned s fingerprint of
        None \<Rightarrow> (False, s)
      | Some None \<Rightarrow> (True, s)
      | Some (Some ban) \<Rightarrow>
          if ban < now then (False, Unban s fingerprint) else (True, s))"

subsection \<open>Sequences of registry operations\<close>

datatype op = OpAdd ref | OpRemove ref | OpRename ref string

fun step :: "Server \<Rightarrow> op \<Rightarrow> Server" where
  "step s (OpAdd c) = Add s c"
| "step s (OpRemove c) = Remove s c"
| "step s (OpRename c n) = Rename s c n"

fun run :: "Server \<Rightarrow> op list \<Rightarrow> Server" where
  "run s [] = s"
| "run s (x # xs) = run (step s x) xs"

text \<open>A sequence of \<^verbatim>\<open>Broadcast\<close> calls, each with its message and its excluded participant.\<close>

fun broadcast_all :: "Server \<Rightarrow> (string \<times> ref option) list \<Rightarrow> Server" where
  "broadcast_all s [] = s"
| "broadcast_all s ((msg, except) # rest) = broadcast_all (Broadcast s msg except) rest"

subsection \<open>Notions used to state the properties\<close>

text \<open>The number of registry entries that hold the participant \<open>r\<close>.\<close>

definition entries_of :: "(string \<times> ref) list \<Rightarrow> ref \<Rightarrow> nat" where
  "entries_of al r = length (filter (\<lambda>(n, c). c = r) al)"

text \<open>What \<^verbatim>\<open>Add\<close> gets from \<^verbatim>\<open>proposeName\<close>: the call is made after \<^verbatim>\<open>s.count++\<close>.\<close>

definition resolve :: "Server \<Rightarrow> ref \<Rightarrow> string \<times> error option" where
  "resolve s c = proposeName (s\<lparr>count := int64 (count s + 1)\<rparr>) (Name (heap s c))"

text \<open>
  The join announcement of \<^verbatim>\<open>Add\<close>, from the state before the call: the resolved name and
  the size of the map once the participant is stored.
\<close>

definition join_announcement :: "Server \<Rightarrow> ref \<Rightarrow> string" where
  "join_announcement s c =
     ''* '' @ fst (resolve s c) @ '' joined. (Total connected: ''
       @ fmt_d (int (length (AList.update (fst (resolve s c)) c (clients s)))) @ '')''"

text \<open>The notice \<^verbatim>\<open>Add\<close> sends to the new participant when \<^verbatim>\<open>proposeName\<close> reports an error.\<close>

definition name_notice :: "Server \<Rightarrow> ref \<Rightarrow> string list" where
  "name_notice s c =
     (case snd (resolve s c) of
        None \<Rightarrow> []
      | Some e \<Rightarrow> [''-> Your name '' @ quote @ Name (heap s c) @ quote
           @ '' is not available, renamed to '' @ quote @ fst (resolve s c) @ quote
           @ ''. Use /nick <name> to change it.''])"

text \<open>
  The naming rule in the words of the specification, steps 1 to 3: strip every character
  outside \<^verbatim>\<open>[0-9A-Za-z_]\<close>, truncate to 32 characters if longer, and substitute
  \<^verbatim>\<open>Guest<counter>\<close> if the result is empty.
\<close>

definition allowed_chars :: string where
  "allowed_chars = ''0123456789ABCDEFGHIJKLMNOPQRSTUVWXYZabcdefghijklmnopqrstuvwxyz_''"

definition spec_name :: "int \<Rightarrow> string \<Rightarrow> string" where
  "spec_name counter requested =
     (let stripped = filter (\<lambda>c. c \<in> set allowed_chars) requested;
          truncated = (if length stripped > 32 then take 32 stripped else stripped)
      in if truncated = [] then ''Guest'' @ fmt_d counter else truncated)"

text \<open>The display names of the participants stored in the registry, one for each entry.\<close>

definition display_names :: "Server \<Rightarrow> string list" where
  "display_names s = map (\<lambda>(n, c). Name (heap s c)) (clients s)"

text \<open>
  The map has one entry per key, and the participant stored under a key has that key as
  its name.
\<close>

definition registry_inv :: "Server \<Rightarrow> bool" where
  "registry_inv s =
     (distinct (map fst (clients s)) \<and> list_all (\<lambda>(n, c). Name (heap s c) = n) (clients s))"

text \<open>
  A sequence of operations is admissible when each \<^verbatim>\<open>Add\<close> is given a participant that
  the registry does not hold at that moment. \<^verbatim>\<open>Remove\<close> and \<^verbatim>\<open>Rename\<close> are not restricted.
\<close>

fun op_ok :: "Server \<Rightarrow> op \<Rightarrow> bool" where
  "op_ok s (OpAdd c) = (c \<notin> snd ` set (clients s))"
| "op_ok s (OpRemove c) = True"
| "op_ok s (OpRename c n) = True"

fun admissible :: "Server \<Rightarrow> op list \<Rightarrow> bool" where
  "admissible s [] = True"
| "admissible s (x # xs) = (op_ok s x \<and> admissible (step s x) xs)"

subsection \<open>Concrete states\<close>

text \<open>
  A store in which participant 0 asks for the name \<^verbatim>\<open>alice\<close> and every other participant
  for the name \<^verbatim>\<open>Guest2\<close>.
\<close>

definition example_heap :: "ref \<Rightarrow> Client" where
  "example_heap r = \<lparr>Name = (if r = 0 then ''alice'' else ''Guest2''), Msg = [], Written = []\<rparr>"

definition ban_example :: Server where
  "ban_example =
     Ban (Ban (Ban (NewServer example_heap) ''aa:01'' None 0) ''aa:02'' (Some 3) 0) ''aa:03'' (Some 10) 0"

definition room_example :: Server where
  "room_example =
     \<lparr>clients = [(''alice'', 0), (''Guest2'', 1), (''bob'', 2)], count = 3,
      history = NewHistory HISTORY_LEN, admins = {}, banned = Map.empty, heap = example_heap,
      goroutines = []\<rparr>"

definition ops_example :: "op list" where
  "ops_example = [OpAdd 0, OpAdd 1, OpRename 0 ''bob'']"

definition ops_example2 :: "op list" where
  "ops_example2 = [OpAdd 1, OpAdd 0, OpRename 1 ''bob'']"

definition name40 :: string where
  "name40 = ''abcdefghijklmnopqrstuvwxyz0123456789_ABC''"

definition broadcasts25 :: "(string \<times> ref option) list" where
  "broadcasts25 =
     [(''m01'', None), (''m02'', None), (''m03'', Some 0), (''m04'', None), (''m05'', None),
      (''m06'', None), (''m07'', None), (''m08'', Some 1), (''m09'', None), (''m10'', None),
      (''m11'', None), (''m12'', None), (''m13'', None), (''m14'', None), (''m15'', None),
      (''m16'', None), (''m17'', None), (''m18'', None), (''m19'', None), (''m20'', None),
      (''m21'', None), (''m22'', None), (''m23'', None), (''m24'', None), (''m25'', None)]"

section \<open>Properties\<close>

subsection \<open>What each method changes\<close>

lemma chan_send_Name [simp]: "Name (chan_send h c m r) = Name (h r)"
  by (simp add: chan_send_def)

lemma chan_send_Written [simp]: "Written (chan_send h c m r) = Written (h r)"
  by (simp add: chan_send_def)

lemma chan_send_Msg: "Msg (chan_send h c m r) = (if r = c then Msg (h r) @ [m] else Msg (h r))"
  by (simp add: chan_send_def)

lemma deliver_Name [simp]: "Name (deliver al m e h r) = Name (h r)"
  by (induction al m e h rule: deliver.induct) simp_all

lemma deliver_Written [simp]: "Written (deliver al m e h r) = Written (h r)"
  by (induction al m e h rule: deliver.induct) simp_all

lemma deliver_Msg:
  "Msg (deliver al m e h r) = Msg (h r) @ (if e = Some r then [] else replicate (entries_of al r) m)"
proof (induction al m e h rule: deliver.induct)
  case (1 msg except h)
  then show ?case by (simp add: entries_of_def)
next
  case (2 name client rest msg except h)
  then show ?case
    by (auto simp: entries_of_def chan_send_Msg replicate_append_same)
qed

lemma entries_of_pos: "(0 < entries_of al r) = (r \<in> snd ` set al)"
  by (induction al) (auto simp: entries_of_def)

lemma entries_of_distinct: "distinct (map snd al) \<Longrightarrow> r \<in> snd ` set al \<Longrightarrow> entries_of al r = 1"
proof (induction al)
  case Nil
  then show ?case by simp
next
  case (Cons a al)
  obtain n c where a: "a = (n, c)" by (cases a)
  show ?case
  proof (cases "c = r")
    case True
    with Cons.prems a have "r \<notin> snd ` set al" by auto
    then have "filter (\<lambda>(n, c). c = r) al = []"
      by (force simp: filter_empty_conv)
    with True a show ?thesis by (simp add: entries_of_def)
  next
    case False
    with Cons a show ?thesis by (auto simp: entries_of_def)
  qed
qed

lemma Broadcast_clients [simp]: "clients (Broadcast s m e) = clients s"
  by (simp add: Broadcast_def Let_def)

lemma Broadcast_count [simp]: "count (Broadcast s m e) = count s"
  by (simp add: Broadcast_def Let_def)

lemma Broadcast_banned [simp]: "banned (Broadcast s m e) = banned s"
  by (simp add: Broadcast_def Let_def)

lemma Broadcast_history: "history (Broadcast s m e) = History_Add (history s) m"
  by (simp add: Broadcast_def Let_def)

lemma Broadcast_Name [simp]: "Name (heap (Broadcast s m e) r) = Name (heap s r)"
  by (simp add: Broadcast_def Let_def)

lemma Broadcast_Written [simp]: "Written (heap (Broadcast s m e) r) = Written (heap s r)"
  by (simp add: Broadcast_def Let_def)

lemma Broadcast_Msg:
  "Msg (heap (Broadcast s m e) r) =
     Msg (heap s r) @ (if e = Some r then [] else replicate (entries_of (clients s) r) m)"
  by (simp add: Broadcast_def Let_def deliver_Msg)

lemma proposeName_heap [simp]: "proposeName (s\<lparr>heap := h\<rparr>) n = proposeName s n"
  by (simp add: proposeName_def Let_def)

lemma proposeName_goroutines_count [simp]:
  "proposeName (s\<lparr>goroutines := g, count := k\<rparr>) n = proposeName (s\<lparr>count := k\<rparr>) n"
  by (simp add: proposeName_def Let_def)

lemma Add_clients: "clients (Add s c) = AList.update (fst (resolve s c)) c (clients s)"
  by (simp add: Add_def resolve_def Let_def Client_Rename_def Client_Write_def Client_WriteLines_def
      split: prod.splits option.splits)

lemma Add_count: "count (Add s c) = int64 (count s + 1)"
  by (simp add: Add_def resolve_def Let_def split: prod.splits option.splits)

lemma Add_Name: "Name (heap (Add s c) r) = (if r = c then fst (resolve s c) else Name (heap s r))"
  by (simp add: Add_def resolve_def Let_def Client_Rename_def Client_Write_def Client_WriteLines_def
      split: prod.splits option.splits)

lemma Add_history: "history (Add s c) = History_Add (history s) (join_announcement s c)"
  by (simp add: Add_def resolve_def join_announcement_def Let_def Broadcast_history
      Client_Rename_def Client_Write_def Client_WriteLines_def
      split: prod.splits option.splits)

lemma Add_Msg_other:
  "r \<noteq> c \<Longrightarrow>
     Msg (heap (Add s c) r) =
       Msg (heap s r) @ replicate (entries_of (clients (Add s c)) r) (join_announcement s c)"
  by (simp add: Add_def resolve_def join_announcement_def Let_def Broadcast_Msg chan_send_Msg
      Client_Rename_def Client_Write_def Client_WriteLines_def
      split: prod.splits option.splits)

lemma Add_Msg_self: "Msg (heap (Add s c) c) = Msg (heap s c) @ name_notice s c"
  by (simp add: Add_def resolve_def name_notice_def Let_def Broadcast_Msg chan_send_Msg
      Client_Rename_def Client_Write_def Client_WriteLines_def
      split: prod.splits option.splits)

lemma Add_Written: "Written (heap (Add s c) r) = Written (heap s r)"
  by (simp add: Add_def Let_def Client_Rename_def chan_send_def
      split: prod.splits option.splits)

lemma Add_goroutines: "goroutines (Add s c) = goroutines s @ [c]"
  by (simp add: Add_def Let_def Broadcast_def split: prod.splits option.splits)

lemma Add_goroutine_Written:
  "Written (heap (Add_goroutine s c) r) =
     (if r = c then Written (heap s c) @ History_Get (history s) 10 @ [welcome_line]
      else Written (heap s r))"
  by (simp add: Add_goroutine_def Client_Write_def Client_WriteLines_def)

lemma Add_goroutine_unchanged:
  "clients (Add_goroutine s c) = clients s"
  "count (Add_goroutine s c) = count s"
  "history (Add_goroutine s c) = history s"
  "banned (Add_goroutine s c) = banned s"
  "Name (heap (Add_goroutine s c) r) = Name (heap s r)"
  "Msg (heap (Add_goroutine s c) r) = Msg (heap s r)"
  by (simp_all add: Add_goroutine_def Client_Write_def Client_WriteLines_def)

lemma Remove_clients: "clients (Remove s c) = AList.delete (Name (heap s c)) (clients s)"
  by (simp add: Remove_def Let_def)

lemma Remove_count: "count (Remove s c) = count s"
  by (simp add: Remove_def Let_def)

lemma Remove_Name: "Name (heap (Remove s c) r) = Name (heap s r)"
  by (simp add: Remove_def Let_def)

lemma Rename_clients:
  "clients (Rename s c n) =
     (case snd (proposeName s n) of
        Some e \<Rightarrow> clients s
      | None \<Rightarrow> AList.update (fst (proposeName s n)) c (AList.delete (Name (heap s c)) (clients s)))"
  by (simp add: Rename_def Let_def Client_Rename_def split: prod.splits option.splits)

lemma Rename_count: "count (Rename s c n) = count s"
  by (simp add: Rename_def Let_def split: prod.splits option.splits)

lemma Rename_Name:
  "Name (heap (Rename s c n) r) =
     (case snd (proposeName s n) of
        Some e \<Rightarrow> Name (heap s r)
      | None \<Rightarrow> if r = c then fst (proposeName s n) else Name (heap s r))"
  by (simp add: Rename_def Let_def Client_Rename_def split: prod.splits option.splits)

subsection \<open>The character class and the naming rule\<close>

lemma allowed_codes:
  "(of_char ` set allowed_chars :: nat set) = {48..57} \<union> {65..90} \<union> {97..122} \<union> {95}"
  unfolding allowed_chars_def
  apply (simp add: atLeastAtMost_upt upt_rec [of "numeral _"])
  apply auto
  done

lemma name_char_iff: "name_char c = (c \<in> set allowed_chars)"
proof -
  have "name_char c = ((of_char c :: nat) \<in> {48..57} \<union> {65..90} \<union> {97..122} \<union> {95})"
    by (auto simp: name_char_def Let_def)
  also have "\<dots> = ((of_char c :: nat) \<in> of_char ` set allowed_chars)"
    by (simp only: allowed_codes)
  also have "\<dots> = (c \<in> set allowed_chars)"
    by (simp add: inj_image_mem_iff inj_of_char)
  finally show ?thesis .
qed

lemma RE_STRIP_NAME_spec: "RE_STRIP_NAME name = filter (\<lambda>c. c \<in> set allowed_chars) name"
proof -
  have "name_char = (\<lambda>c. c \<in> set allowed_chars)"
    by (rule ext) (rule name_char_iff)
  then show ?thesis
    by (simp add: RE_STRIP_NAME_def)
qed

lemma proposeName_spec:
  "proposeName s requested =
     (if map_of (clients s) (spec_name (count s) requested) \<noteq> None
      then (''Guest'' @ fmt_d (count s),
            Some (Errorf (spec_name (count s) requested @ '' is not available.'')))
      else (spec_name (count s) requested, None))"
proof -
  let ?stripped = "filter (\<lambda>c. c \<in> set allowed_chars) requested"
  have "(if length ?stripped > MAX_NAME_LENGTH then take MAX_NAME_LENGTH ?stripped
         else if length ?stripped = 0 then ''Guest'' @ fmt_d (count s) else ?stripped)
        = spec_name (count s) requested"
    by (auto simp: spec_name_def MAX_NAME_LENGTH_def Let_def)
  then show ?thesis
    by (simp add: proposeName_def RE_STRIP_NAME_spec Let_def)
qed

lemma resolve_spec:
  "resolve s c =
     (if map_of (clients s) (spec_name (int64 (count s + 1)) (Name (heap s c))) \<noteq> None
      then (''Guest'' @ fmt_d (int64 (count s + 1)),
            Some (Errorf (spec_name (int64 (count s + 1)) (Name (heap s c)) @ '' is not available.'')))
      else (spec_name (int64 (count s + 1)) (Name (heap s c)), None))"
  by (simp add: resolve_def proposeName_spec)

subsection \<open>Evaluation on the concrete states\<close>

lemma spec_name_alice: "spec_name k ''alice'' = ''alice''"
  by (simp add: spec_name_def allowed_chars_def)

lemma spec_name_bob: "spec_name k ''bob'' = ''bob''"
  by (simp add: spec_name_def allowed_chars_def)

lemma spec_name_Guest2: "spec_name k ''Guest2'' = ''Guest2''"
  by (simp add: spec_name_def allowed_chars_def)

lemma fmt_d_small: "fmt_d 1 = ''1''" "fmt_d 2 = ''2''" "fmt_d 3 = ''3''" "fmt_d 4 = ''4''"
  by (simp_all add: fmt_d_def digits.simps digit_char_def)

lemma int64_id: "- (2 ^ 63) \<le> i \<Longrightarrow> i < 2 ^ 63 \<Longrightarrow> int64 i = i"
  by (simp add: int64_def)

lemma int64_small: "int64 1 = 1" "int64 2 = 2" "int64 3 = 3" "int64 4 = 4"
  by (simp_all add: int64_id)

lemma int64_wraps: "int64 (9223372036854775807 + 1) = - 9223372036854775808"
  by (simp add: int64_def)

lemma room_example_simps:
  "clients room_example = [(''alice'', 0), (''Guest2'', 1), (''bob'', 2)]"
  "heap room_example = example_heap"
  "count room_example = 3"
  "history room_example = NewHistory HISTORY_LEN"
  by (simp_all add: room_example_def)

lemma ban_example_banned:
  "banned ban_example = [''aa:01'' \<mapsto> None, ''aa:02'' \<mapsto> Some 3, ''aa:03'' \<mapsto> Some 10]"
  by (simp add: ban_example_def Ban_def NewServer_def)

lemmas registry_eval =
  Add_clients Add_Name Add_count Remove_clients Remove_Name Remove_count
  Rename_clients Rename_Name Rename_count resolve_spec proposeName_spec
  spec_name_alice spec_name_bob spec_name_Guest2 fmt_d_small int64_small NewServer_def
  example_heap_def

subsection \<open>The ban table\<close>

text \<open>
  C5. \<^verbatim>\<open>IsBanned\<close> answers false, and changes nothing, when the fingerprint has no entry;
  true, and changes nothing, when the entry has no expiry; false when the expiry is before
  the current instant, and then the state it leaves is the one \<^verbatim>\<open>Unban\<close> leaves, the entry
  removed from the table; true, and changes nothing, when the expiry is after the current
  instant.
\<close>

theorem IsBanned_cases:
  "(banned s fp = None \<longrightarrow> IsBanned s fp now = (False, s)) \<and>
   (banned s fp = Some None \<longrightarrow> IsBanned s fp now = (True, s)) \<and>
   (\<forall>t. banned s fp = Some (Some t) \<and> t < now \<longrightarrow>
      fst (IsBanned s fp now) = False \<and>
      snd (IsBanned s fp now) = Unban s fp \<and>
      banned (snd (IsBanned s fp now)) = (banned s)(fp := None)) \<and>
   (\<forall>t. banned s fp = Some (Some t) \<and> now < t \<longrightarrow> IsBanned s fp now = (True, s))"
  by (simp add: IsBanned_def Unban_def)

theorem IsBanned_cases_witness:
  "banned ban_example ''aa:00'' = None \<and> IsBanned ban_example ''aa:00'' 5 = (False, ban_example) \<and>
   banned ban_example ''aa:01'' = Some None \<and> IsBanned ban_example ''aa:01'' 5 = (True, ban_example) \<and>
   banned ban_example ''aa:02'' = Some (Some 3) \<and> (3::int) < 5 \<and>
     fst (IsBanned ban_example ''aa:02'' 5) = False \<and>
     banned (snd (IsBanned ban_example ''aa:02'' 5)) ''aa:02'' = None \<and>
   banned ban_example ''aa:03'' = Some (Some 10) \<and> (5::int) < 10 \<and>
     IsBanned ban_example ''aa:03'' 5 = (True, ban_example)"
  using IsBanned_cases [of ban_example "''aa:00''" 5]
    IsBanned_cases [of ban_example "''aa:01''" 5]
    IsBanned_cases [of ban_example "''aa:02''" 5]
    IsBanned_cases [of ban_example "''aa:03''" 5]
  by (simp add: ban_example_banned Unban_def)

text \<open>
  C8. After a permanent ban of a fingerprint (\<^verbatim>\<open>Ban\<close> with a \<^verbatim>\<open>nil\<close> duration),
  \<^verbatim>\<open>IsBanned\<close> answers true at any instant and leaves the ban in place; after \<^verbatim>\<open>Unban\<close> it
  answers false. \<^verbatim>\<open>Unban\<close> removes the entry of the fingerprint and no other, and on a
  table without that entry it changes nothing.
\<close>

theorem ban_round_trip:
  "fst (IsBanned (Ban s fp None t1) fp t2) = True \<and>
   snd (IsBanned (Ban s fp None t1) fp t2) = Ban s fp None t1 \<and>
   fst (IsBanned (Unban s fp) fp t2) = False \<and>
   banned (Unban s fp) = (banned s)(fp := None) \<and>
   (banned s fp = None \<longrightarrow> Unban s fp = s)"
proof -
  have "Unban s fp = s" if "banned s fp = None"
  proof -
    from that have "(banned s)(fp := None) = banned s"
      by (simp add: fun_upd_idem)
    then show ?thesis
      by (simp add: Unban_def)
  qed
  then show ?thesis
    by (simp add: IsBanned_def Ban_def Unban_def)
qed

theorem ban_round_trip_witness:
  "fst (IsBanned (Ban (NewServer example_heap) ''aa:01'' None 0) ''aa:01'' 7) = True \<and>
   fst (IsBanned (Unban (Ban (NewServer example_heap) ''aa:01'' None 0) ''aa:01'') ''aa:01'' 7) = False \<and>
   banned (NewServer example_heap) ''aa:01'' = None \<and>
   Unban (NewServer example_heap) ''aa:01'' = NewServer example_heap"
  using ban_round_trip [of "NewServer example_heap" "''aa:01''" 0 7]
    ban_round_trip [of "Ban (NewServer example_heap) ''aa:01'' None 0" "''aa:01''" 0 7]
  by (simp add: NewServer_def)

subsection \<open>The naming algorithm\<close>

text \<open>
  C2. For every requested name, \<^verbatim>\<open>proposeName\<close> computes the name of the specification's
  rule (strip the characters outside \<^verbatim>\<open>[0-9A-Za-z_]\<close>, truncate to 32 characters if
  longer, substitute \<^verbatim>\<open>Guest<counter>\<close> if empty) and returns it when the registry has no
  entry under it, and \<^verbatim>\<open>Guest<counter>\<close> otherwise. In particular \<^verbatim>\<open>"ali ce!!"\<close> yields
  \<^verbatim>\<open>"alice"\<close> when that name is free, \<^verbatim>\<open>"!!!"\<close> and the empty name yield
  \<^verbatim>\<open>Guest<counter>\<close>, and a name of 40 characters of the class is cut to its first 32
  characters when that prefix is free.
\<close>

theorem proposeName_sanitizes:
  "fst (proposeName s requested) =
     (if map_of (clients s) (spec_name (count s) requested) = None
      then spec_name (count s) requested else ''Guest'' @ fmt_d (count s)) \<and>
   (map_of (clients s) ''alice'' = None \<longrightarrow> proposeName s ''ali ce!!'' = (''alice'', None)) \<and>
   fst (proposeName s ''!!!'') = ''Guest'' @ fmt_d (count s) \<and>
   fst (proposeName s []) = ''Guest'' @ fmt_d (count s) \<and>
   (length requested = 40 \<and> set requested \<subseteq> set allowed_chars \<and>
      map_of (clients s) (take 32 requested) = None \<longrightarrow>
      proposeName s requested = (take 32 requested, None) \<and>
      length (fst (proposeName s requested)) = 32)"
proof -
  have a: "spec_name k ''ali ce!!'' = ''alice''" for k
    by (simp add: spec_name_def allowed_chars_def)
  have b: "spec_name k ''!!!'' = ''Guest'' @ fmt_d k" for k
    by (simp add: spec_name_def allowed_chars_def)
  have c: "spec_name k [] = ''Guest'' @ fmt_d k" for k
    by (simp add: spec_name_def)
  have d: "spec_name k requested = take 32 requested"
    if "length requested = 40" "set requested \<subseteq> set allowed_chars" for k
  proof -
    from that(2) have "filter (\<lambda>c. c \<in> set allowed_chars) requested = requested"
      by (auto simp: filter_id_conv)
    with that(1) show ?thesis
      by (auto simp: spec_name_def Let_def)
  qed
  show ?thesis
    by (simp add: proposeName_spec a b c d)
qed

theorem proposeName_sanitizes_witness:
  "map_of (clients (NewServer example_heap)) ''alice'' = None \<and>
   proposeName (NewServer example_heap) ''ali ce!!'' = (''alice'', None) \<and>
   fst (proposeName room_example ''!!!'') = ''Guest3'' \<and>
   length name40 = 40 \<and> set name40 \<subseteq> set allowed_chars \<and>
   map_of (clients (NewServer example_heap)) (take 32 name40) = None \<and>
   proposeName (NewServer example_heap) name40 = (''abcdefghijklmnopqrstuvwxyz012345'', None)"
  using proposeName_sanitizes [where s = "NewServer example_heap" and requested = name40]
    proposeName_sanitizes [where s = room_example and requested = name40]
  by (simp add: NewServer_def room_example_simps fmt_d_small name40_def allowed_chars_def)

subsection \<open>Broadcast\<close>

text \<open>
  C4. \<^verbatim>\<open>Broadcast(msg, p)\<close> adds the message to the history buffer and leaves the registry
  as it is. The channel of a participant \<open>r\<close> gets the message once for each registry entry
  that holds \<open>r\<close>, unless \<open>r\<close> is the excluded participant \<open>p\<close>, whose channel is left
  unchanged; a participant is held by at least one entry exactly when it is registered,
  and by exactly one when no participant is stored twice. The test is on the reference,
  not on the name. With \<open>p\<close> absent nobody is excluded.
\<close>

theorem Broadcast_delivers:
  "history (Broadcast s msg p) = History_Add (history s) msg \<and>
   entries (history (Broadcast s msg p)) = lastn (capacity (history s)) (entries (history s) @ [msg]) \<and>
   clients (Broadcast s msg p) = clients s \<and>
   Msg (heap (Broadcast s msg p) r) =
     Msg (heap s r) @ (if p = Some r then [] else replicate (entries_of (clients s) r) msg) \<and>
   (0 < entries_of (clients s) r) = (r \<in> snd ` set (clients s)) \<and>
   (distinct (map snd (clients s)) \<and> r \<in> snd ` set (clients s) \<longrightarrow> entries_of (clients s) r = 1) \<and>
   Name (heap (Broadcast s msg p) r) = Name (heap s r)"
  by (simp add: Broadcast_history Broadcast_Msg entries_of_pos entries_of_distinct History_Add_def)

theorem Broadcast_delivers_witness:
  "distinct (map snd (clients room_example)) \<and>
   {0, 1, 2} \<subseteq> snd ` set (clients room_example) \<and>
   Name (heap room_example 1) = Name (heap room_example 2) \<and>
   Msg (heap (Broadcast room_example ''hi'' (Some 1)) 0) = [''hi''] \<and>
   Msg (heap (Broadcast room_example ''hi'' (Some 1)) 1) = [] \<and>
   Msg (heap (Broadcast room_example ''hi'' (Some 1)) 2) = [''hi''] \<and>
   Msg (heap (Broadcast room_example ''hi'' None) 1) = [''hi''] \<and>
   entries (history (Broadcast room_example ''hi'' (Some 1))) = [''hi'']"
  using Broadcast_delivers [of room_example "''hi''" "Some 1" 0]
    Broadcast_delivers [of room_example "''hi''" "Some 1" 1]
    Broadcast_delivers [of room_example "''hi''" "Some 1" 2]
    Broadcast_delivers [of room_example "''hi''" None 1]
  by (simp add: room_example_simps example_heap_def entries_of_def
      NewHistory_def HISTORY_LEN_def lastn_def)

subsection \<open>Add\<close>

text \<open>
  C6 (amended). \<^verbatim>\<open>Add\<close> stores the participant under its resolved name and broadcasts a
  join announcement made of the resolved name and the new number of registry entries,
  excluding the participant it has just added: the announcement goes to the history and to
  the channel of every other registered participant, once for each entry that holds it,
  and the channel of the new participant gets nothing but the notice about its name, sent
  exactly when \<^verbatim>\<open>proposeName\<close> reported a collision.
\<close>

theorem Add_announces_to_others:
  "Name (heap (Add s c) c) = fst (resolve s c) \<and>
   clients (Add s c) = AList.update (fst (resolve s c)) c (clients s) \<and>
   map_of (clients (Add s c)) (fst (resolve s c)) = Some c \<and>
   join_announcement s c =
     ''* '' @ Name (heap (Add s c) c) @ '' joined. (Total connected: ''
       @ fmt_d (int (length (clients (Add s c)))) @ '')'' \<and>
   history (Add s c) = History_Add (history s) (join_announcement s c) \<and>
   (r \<noteq> c \<longrightarrow>
      Msg (heap (Add s c) r) =
        Msg (heap s r) @ replicate (entries_of (clients (Add s c)) r) (join_announcement s c)) \<and>
   (0 < entries_of (clients (Add s c)) r) = (r \<in> snd ` set (clients (Add s c))) \<and>
   Msg (heap (Add s c) c) = Msg (heap s c) @ name_notice s c"
  by (simp add: Add_Name Add_clients update_conv' Add_history Add_Msg_other Add_Msg_self
      entries_of_pos join_announcement_def)

theorem Add_announces_to_others_witness:
  "(0::nat) \<noteq> 3 \<and>
   join_announcement room_example 3 = ''* Guest4 joined. (Total connected: 4)'' \<and>
   clients (Add room_example 3) = [(''alice'', 0), (''Guest2'', 1), (''bob'', 2), (''Guest4'', 3)] \<and>
   Msg (heap (Add room_example 3) 0) = [''* Guest4 joined. (Total connected: 4)''] \<and>
   Msg (heap (Add room_example 3) 3) =
     [''-> Your name '' @ quote @ ''Guest2'' @ quote @ '' is not available, renamed to ''
        @ quote @ ''Guest4'' @ quote @ ''. Use /nick <name> to change it.'']"
  using Add_announces_to_others [where s = room_example and c = 3 and r = 0]
  by (simp add: room_example_simps resolve_spec spec_name_Guest2 fmt_d_small int64_small
      example_heap_def entries_of_def join_announcement_def name_notice_def)

text \<open>
  C6 as stated fails: when participant 0 joins an empty server as \<^verbatim>\<open>alice\<close>, the
  announcement is broadcast (it is in the history) and participant 0 is registered, but
  its channel stays empty.
\<close>

theorem Add_excludes_joiner_counterexample:
  "clients (Add (NewServer example_heap) 0) = [(''alice'', 0)] \<and>
   entries (history (Add (NewServer example_heap) 0)) = [''* alice joined. (Total connected: 1)''] \<and>
   ''* alice joined. (Total connected: 1)'' \<notin> set (Msg (heap (Add (NewServer example_heap) 0) 0)) \<and>
   Msg (heap (Add (NewServer example_heap) 0) 0) = []"
  by (simp add: Add_clients Add_history Add_Msg_self join_announcement_def name_notice_def
      resolve_spec spec_name_alice fmt_d_small int64_small NewServer_def example_heap_def
      History_Add_def NewHistory_def HISTORY_LEN_def lastn_def)

text \<open>
  What \<^verbatim>\<open>Add\<close> does when the sanitized name is taken: the participant gets the name
  \<^verbatim>\<open>Guest<counter>\<close> and the notice. That name is different from the requested one and
  free only if no entry of the registry is keyed by it; \<^verbatim>\<open>proposeName\<close> does not look.
\<close>

lemma Add_collision_fallback:
  assumes "map_of (clients s) (spec_name (int64 (count s + 1)) (Name (heap s c))) \<noteq> None"
  shows "Name (heap (Add s c) c) = ''Guest'' @ fmt_d (int64 (count s + 1))"
    and "name_notice s c \<noteq> []"
    and "Msg (heap (Add s c) c) = Msg (heap s c) @ name_notice s c"
    and "map_of (clients s) (''Guest'' @ fmt_d (int64 (count s + 1))) = None \<Longrightarrow>
           Name (heap (Add s c) c) \<notin> fst ` set (clients s) \<and>
           Name (heap (Add s c) c) \<noteq> spec_name (int64 (count s + 1)) (Name (heap s c))"
proof -
  from assms show n: "Name (heap (Add s c) c) = ''Guest'' @ fmt_d (int64 (count s + 1))"
    by (simp add: Add_Name resolve_spec)
  from assms show "name_notice s c \<noteq> []"
    by (simp add: name_notice_def resolve_spec)
  show "Msg (heap (Add s c) c) = Msg (heap s c) @ name_notice s c"
    by (rule Add_Msg_self)
  assume free: "map_of (clients s) (''Guest'' @ fmt_d (int64 (count s + 1))) = None"
  then have "''Guest'' @ fmt_d (int64 (count s + 1)) \<notin> fst ` set (clients s)"
    by (simp add: map_of_eq_None_iff)
  moreover from free assms
  have "''Guest'' @ fmt_d (int64 (count s + 1)) \<noteq> spec_name (int64 (count s + 1)) (Name (heap s c))"
    by auto
  ultimately show "Name (heap (Add s c) c) \<notin> fst ` set (clients s) \<and>
      Name (heap (Add s c) c) \<noteq> spec_name (int64 (count s + 1)) (Name (heap s c))"
    by (simp add: n)
qed

text \<open>
  C3. A participant whose requested name is taken is to get a different name that nobody
  holds. On a new server participant 1 joins as \<^verbatim>\<open>Guest2\<close>; then participant 2 asks for
  \<^verbatim>\<open>Guest2\<close> as well. The counter is 2 by then, so the fallback \<^verbatim>\<open>Guest<counter>\<close> is again
  \<^verbatim>\<open>Guest2\<close>: \<^verbatim>\<open>proposeName\<close> reports the collision, participant 2 is told that its name
  was changed, and it is stored under \<^verbatim>\<open>Guest2\<close>, the name it asked for and the name
  participant 1 still has; the entry of participant 1 is overwritten.
\<close>

theorem Add_fallback_name_taken:
  "admissible (NewServer example_heap) [OpAdd 1, OpAdd 2] \<and>
   clients (run (NewServer example_heap) [OpAdd 1]) = [(''Guest2'', 1)] \<and>
   count (run (NewServer example_heap) [OpAdd 1]) = 1 \<and>
   Name (heap (run (NewServer example_heap) [OpAdd 1]) 2) = ''Guest2'' \<and>
   resolve (run (NewServer example_heap) [OpAdd 1]) 2 =
     (''Guest2'', Some (Errorf ''Guest2 is not available.'')) \<and>
   Name (heap (Add (run (NewServer example_heap) [OpAdd 1]) 2) 2) = ''Guest2'' \<and>
   Name (heap (Add (run (NewServer example_heap) [OpAdd 1]) 2) 1) = ''Guest2'' \<and>
   clients (Add (run (NewServer example_heap) [OpAdd 1]) 2) = [(''Guest2'', 2)] \<and>
   Msg (heap (Add (run (NewServer example_heap) [OpAdd 1]) 2) 2) =
     [''-> Your name '' @ quote @ ''Guest2'' @ quote @ '' is not available, renamed to ''
        @ quote @ ''Guest2'' @ quote @ ''. Use /nick <name> to change it.'']"
  by (simp add: registry_eval Add_Msg_self Add_Msg_other entries_of_def name_notice_def)

subsection \<open>Rename\<close>

text \<open>
  C7. When \<^verbatim>\<open>proposeName\<close> reports an error for the requested name, \<^verbatim>\<open>Rename\<close> changes
  one thing only: the channel of the requesting participant gets the notice. The registry,
  the history (nothing is broadcast), the counter, every name and every other participant
  are as before the call.
\<close>

theorem Rename_collision_no_change:
  assumes "snd (proposeName s requested) = Some e"
  shows "Rename s c requested =
           s\<lparr>heap := (heap s)(c := (heap s c)\<lparr>Msg := Msg (heap s c) @ [''-> '' @ Error e]\<rparr>)\<rparr> \<and>
         clients (Rename s c requested) = clients s \<and>
         history (Rename s c requested) = history s \<and>
         count (Rename s c requested) = count s \<and>
         Name (heap (Rename s c requested) r) = Name (heap s r) \<and>
         (r \<noteq> c \<longrightarrow> heap (Rename s c requested) r = heap s r) \<and>
         Msg (heap (Rename s c requested) c) = Msg (heap s c) @ [''-> '' @ Error e]"
proof -
  have "Rename s c requested =
          s\<lparr>heap := (heap s)(c := (heap s c)\<lparr>Msg := Msg (heap s c) @ [''-> '' @ Error e]\<rparr>)\<rparr>"
    using assms by (cases "proposeName s requested") (simp add: Rename_def chan_send_def)
  then show ?thesis
    by simp
qed

theorem Rename_collision_no_change_witness:
  "snd (proposeName room_example ''bob'') = Some (Errorf ''bob is not available.'') \<and>
   clients (Rename room_example 0 ''bob'') = clients room_example \<and>
   history (Rename room_example 0 ''bob'') = history room_example \<and>
   Name (heap (Rename room_example 0 ''bob'') 0) = ''alice'' \<and>
   Msg (heap (Rename room_example 0 ''bob'') 0) = [''-> bob is not available.'']"
proof -
  have e: "snd (proposeName room_example ''bob'') = Some (Errorf ''bob is not available.'')"
    by (simp add: proposeName_spec spec_name_bob room_example_simps)
  show ?thesis
    using e Rename_collision_no_change [OF e, of 0 0]
    by (simp add: room_example_simps example_heap_def)
qed

subsection \<open>The registry invariant\<close>

lemma set_update_subset: "set (AList.update k v al) \<subseteq> insert (k, v) (set al)"
  by (induction al) auto

lemma set_delete: "set (AList.delete k al) = {p \<in> set al. fst p \<noteq> k}"
  by (auto simp: AList.delete_eq)

lemma registry_inv_iff:
  "registry_inv s =
     (distinct (map fst (clients s)) \<and> (\<forall>n c. (n, c) \<in> set (clients s) \<longrightarrow> Name (heap s c) = n))"
  by (auto simp: registry_inv_def list_all_iff)

lemma registry_inv_NewServer: "registry_inv (NewServer h)"
  by (simp add: registry_inv_def NewServer_def)

lemma registry_inv_Add:
  assumes "registry_inv s" and "c \<notin> snd ` set (clients s)"
  shows "registry_inv (Add s c)"
proof -
  let ?k = "fst (resolve s c)"
  have "Name (heap (Add s c) d) = n" if "(n, d) \<in> set (clients (Add s c))" for n d
  proof -
    from that set_update_subset [of ?k c "clients s"]
    consider "(n, d) = (?k, c)" | "(n, d) \<in> set (clients s)"
      by (auto simp: Add_clients)
    then show ?thesis
    proof cases
      case 1
      then show ?thesis by (simp add: Add_Name)
    next
      case 2
      with assms(2) have "d \<noteq> c" by force
      with 2 assms(1) show ?thesis
        by (simp add: Add_Name registry_inv_iff)
    qed
  qed
  moreover from assms(1) have "distinct (map fst (clients (Add s c)))"
    by (simp add: Add_clients registry_inv_iff distinct_update)
  ultimately show ?thesis
    by (simp add: registry_inv_iff)
qed

lemma registry_inv_Remove:
  assumes "registry_inv s"
  shows "registry_inv (Remove s c)"
  using assms
  by (auto simp: registry_inv_iff Remove_clients Remove_Name distinct_delete set_delete)

lemma registry_inv_Rename:
  assumes "registry_inv s"
  shows "registry_inv (Rename s c requested)"
proof (cases "snd (proposeName s requested)")
  case (Some e)
  with assms show ?thesis
    by (simp add: registry_inv_iff Rename_clients Rename_Name)
next
  case None
  let ?k = "fst (proposeName s requested)"
  let ?al = "AList.delete (Name (heap s c)) (clients s)"
  from None have cl: "clients (Rename s c requested) = AList.update ?k c ?al"
    by (simp add: Rename_clients)
  from None have nm: "Name (heap (Rename s c requested) d) = (if d = c then ?k else Name (heap s d))" for d
    by (simp add: Rename_Name)
  have "Name (heap (Rename s c requested) d) = n" if "(n, d) \<in> set (clients (Rename s c requested))" for n d
  proof -
    from that set_update_subset [of ?k c ?al]
    consider "(n, d) = (?k, c)" | "(n, d) \<in> set ?al"
      by (auto simp: cl)
    then show ?thesis
    proof cases
      case 1
      then show ?thesis by (simp add: nm)
    next
      case 2
      then have in_s: "(n, d) \<in> set (clients s)" and ne: "n \<noteq> Name (heap s c)"
        by (auto simp: set_delete)
      from in_s assms have "Name (heap s d) = n"
        by (simp add: registry_inv_iff)
      with ne have "d \<noteq> c" by auto
      with \<open>Name (heap s d) = n\<close> show ?thesis by (simp add: nm)
    qed
  qed
  moreover from assms have "distinct (map fst (clients (Rename s c requested)))"
    by (simp add: cl registry_inv_iff distinct_update distinct_delete)
  ultimately show ?thesis
    by (simp add: registry_inv_iff)
qed

lemma registry_inv_step: "registry_inv s \<Longrightarrow> op_ok s x \<Longrightarrow> registry_inv (step s x)"
  by (cases x) (simp_all add: registry_inv_Add registry_inv_Remove registry_inv_Rename)

lemma registry_inv_run: "registry_inv s \<Longrightarrow> admissible s ops \<Longrightarrow> registry_inv (run s ops)"
  by (induction ops arbitrary: s) (simp_all add: registry_inv_step)

lemma admissible_take: "admissible s ops \<Longrightarrow> admissible s (take k ops)"
proof (induction ops arbitrary: s k)
  case Nil
  then show ?case by simp
next
  case (Cons x xs)
  then show ?case by (cases k) simp_all
qed

lemma registry_inv_display_names: "registry_inv s \<Longrightarrow> display_names s = map fst (clients s)"
  by (auto simp: registry_inv_iff display_names_def)

text \<open>
  A goroutine step changes neither the registry nor a name: wherever such steps fall
  between the operations of a sequence, the registry and the names are those of the
  sequence without them.
\<close>

lemma registry_inv_Add_goroutine: "registry_inv (Add_goroutine s c) = registry_inv s"
  by (simp add: registry_inv_def Add_goroutine_unchanged)

lemma display_names_Add_goroutine: "display_names (Add_goroutine s c) = display_names s"
  by (simp add: display_names_def Add_goroutine_unchanged)

lemma registry_inv_reachable:
  "admissible (NewServer h) ops \<Longrightarrow> registry_inv (run (NewServer h) (take k ops))"
  by (simp add: registry_inv_run registry_inv_NewServer admissible_take)

text \<open>
  C1 (amended). On a new server, for every sequence of \<^verbatim>\<open>Add\<close>, \<^verbatim>\<open>Remove\<close> and \<^verbatim>\<open>Rename\<close>
  operations in which each \<^verbatim>\<open>Add\<close> is given a participant that the registry does not
  hold at that moment, after every prefix of the sequence the display names of the
  participants stored in the registry, one for each entry, have no duplicates: the map
  has one entry per key, and two different registered participants never have the same
  name.
\<close>

theorem display_names_unique:
  assumes "admissible (NewServer h) ops"
  shows "distinct (display_names (run (NewServer h) (take k ops))) \<and>
         distinct (map fst (clients (run (NewServer h) (take k ops)))) \<and>
         ((n, c) \<in> set (clients (run (NewServer h) (take k ops))) \<and>
          (m, d) \<in> set (clients (run (NewServer h) (take k ops))) \<and> c \<noteq> d \<longrightarrow>
            Name (heap (run (NewServer h) (take k ops)) c) \<noteq> Name (heap (run (NewServer h) (take k ops)) d))"
proof -
  let ?s = "run (NewServer h) (take k ops)"
  from assms have inv: "registry_inv ?s"
    by (rule registry_inv_reachable)
  then have keys: "distinct (map fst (clients ?s))"
    by (simp add: registry_inv_iff)
  with inv have "distinct (display_names ?s)"
    by (simp add: registry_inv_display_names)
  moreover have "Name (heap ?s c) \<noteq> Name (heap ?s d)"
    if "(n, c) \<in> set (clients ?s)" "(m, d) \<in> set (clients ?s)" "c \<noteq> d"
  proof
    assume eq: "Name (heap ?s c) = Name (heap ?s d)"
    from inv that(1,2) have "Name (heap ?s c) = n" "Name (heap ?s d) = m"
      by (simp_all add: registry_inv_iff)
    with eq have "n = m" by simp
    with keys that(1,2) have "c = d"
      by (auto dest: eq_key_imp_eq_value)
    with that(3) show False by simp
  qed
  ultimately show ?thesis
    using keys by blast
qed

theorem display_names_unique_witness:
  "admissible (NewServer example_heap) ops_example \<and>
   clients (run (NewServer example_heap) (take 3 ops_example)) = [(''Guest2'', 1), (''bob'', 0)] \<and>
   display_names (run (NewServer example_heap) (take 3 ops_example)) = [''Guest2'', ''bob''] \<and>
   distinct (display_names (run (NewServer example_heap) (take 3 ops_example)))"
proof -
  have a: "admissible (NewServer example_heap) ops_example"
    by (simp add: ops_example_def registry_eval)
  show ?thesis
    using a display_names_unique [OF a, where k = 3]
    by (simp add: ops_example_def registry_eval display_names_def)
qed

text \<open>
  C1 as stated, for every sequence, fails when a participant is added while the registry
  holds it. Participant 0 is added as \<^verbatim>\<open>alice\<close> and added again: the second call finds
  \<^verbatim>\<open>alice\<close> taken, renames the participant to \<^verbatim>\<open>Guest2\<close> and stores it under that key
  too, the entry \<^verbatim>\<open>alice\<close> staying. \<^verbatim>\<open>Remove\<close> deletes the entry \<^verbatim>\<open>Guest2\<close>. Participant 1
  then joins as \<^verbatim>\<open>Guest2\<close>, which is free: the registry holds the two participants 0 and
  1, both with the display name \<^verbatim>\<open>Guest2\<close>.
\<close>

theorem display_names_unique_counterexample:
  "clients (run (NewServer example_heap) [OpAdd 0, OpAdd 0, OpRemove 0, OpAdd 1])
     = [(''alice'', 0), (''Guest2'', 1)] \<and>
   Name (heap (run (NewServer example_heap) [OpAdd 0, OpAdd 0, OpRemove 0, OpAdd 1]) 0) = ''Guest2'' \<and>
   Name (heap (run (NewServer example_heap) [OpAdd 0, OpAdd 0, OpRemove 0, OpAdd 1]) 1) = ''Guest2'' \<and>
   \<not> distinct (display_names (run (NewServer example_heap) [OpAdd 0, OpAdd 0, OpRemove 0, OpAdd 1]))"
  by (simp add: registry_eval display_names_def)

text \<open>
  C10 (amended). On a new server, for every sequence of \<^verbatim>\<open>Add\<close>, \<^verbatim>\<open>Remove\<close> and
  \<^verbatim>\<open>Rename\<close> operations in which each \<^verbatim>\<open>Add\<close> is given a participant that the registry
  does not hold at that moment, after every prefix of the sequence every key \<open>n\<close> of the
  map satisfies \<^verbatim>\<open>clients[n].Name == n\<close>. In any state, \<^verbatim>\<open>Add\<close> and a \<^verbatim>\<open>Rename\<close> without
  error leave the participant stored under the name it then has, and \<^verbatim>\<open>Remove\<close> leaves
  no entry under the participant's name.
\<close>

theorem registry_keys_consistent:
  assumes "admissible (NewServer h) ops"
  shows "(map_of (clients (run (NewServer h) (take k ops))) n = Some c \<longrightarrow>
            Name (heap (run (NewServer h) (take k ops)) c) = n) \<and>
         map_of (clients (Add t c)) (Name (heap (Add t c) c)) = Some c \<and>
         (snd (proposeName t requested) = None \<longrightarrow>
            map_of (clients (Rename t c requested)) (Name (heap (Rename t c requested) c)) = Some c) \<and>
         map_of (clients (Remove t c)) (Name (heap t c)) = None"
proof -
  let ?s = "run (NewServer h) (take k ops)"
  from assms have "registry_inv ?s"
    by (rule registry_inv_reachable)
  then have "Name (heap ?s c) = n" if "map_of (clients ?s) n = Some c"
    using map_of_SomeD [OF that] by (simp add: registry_inv_iff)
  then show ?thesis
    by (simp add: Add_clients Add_Name Rename_clients Rename_Name Remove_clients
        update_conv' delete_conv')
qed

theorem registry_keys_consistent_witness:
  "admissible (NewServer example_heap) ops_example2 \<and>
   map_of (clients (run (NewServer example_heap) (take 3 ops_example2))) ''bob'' = Some 1 \<and>
   Name (heap (run (NewServer example_heap) (take 3 ops_example2)) 1) = ''bob'' \<and>
   snd (proposeName (NewServer example_heap) ''bob'') = None \<and>
   map_of (clients (Rename (NewServer example_heap) 1 ''bob''))
     (Name (heap (Rename (NewServer example_heap) 1 ''bob'') 1)) = Some 1"
proof -
  have a: "admissible (NewServer example_heap) ops_example2"
    by (simp add: ops_example2_def registry_eval)
  show ?thesis
    using a registry_keys_consistent [OF a, where k = 3 and n = "''bob''" and c = 1
        and t = "NewServer example_heap" and requested = "''bob''"]
    by (simp add: ops_example2_def registry_eval)
qed

text \<open>
  C10 as stated, for every sequence, fails when a participant is added while the registry
  holds it: after participant 0 is added as \<^verbatim>\<open>alice\<close> and added again, the key \<^verbatim>\<open>alice\<close>
  still maps to participant 0, whose name is now \<^verbatim>\<open>Guest2\<close>.
\<close>

theorem registry_keys_consistent_counterexample:
  "map_of (clients (run (NewServer example_heap) [OpAdd 0, OpAdd 0])) ''alice'' = Some 0 \<and>
   Name (heap (run (NewServer example_heap) [OpAdd 0, OpAdd 0]) 0) = ''Guest2'' \<and>
   Name (heap (run (NewServer example_heap) [OpAdd 0, OpAdd 0]) 0) \<noteq> ''alice''"
  by (simp add: registry_eval)

subsection \<open>The history buffer\<close>

lemma length_lastn: "length (lastn n xs) \<le> n"
  by (simp add: lastn_def)

lemma lastn_id: "length xs \<le> n \<Longrightarrow> lastn n xs = xs"
  by (simp add: lastn_def)

lemma lastn_lastn_append: "lastn n (lastn n xs @ ys) = lastn n (xs @ ys)"
proof -
  have "length xs + length ys - (length xs - n + n) + (length xs - n) = length xs + length ys - n"
    by arith
  then show ?thesis
    by (simp add: lastn_def)
qed

lemma History_Add_capacity [simp]: "capacity (History_Add h m) = capacity h"
  by (simp add: History_Add_def)

lemma broadcast_all_Written: "Written (heap (broadcast_all s bs) r) = Written (heap s r)"
  by (induction s bs rule: broadcast_all.induct) simp_all

lemma broadcast_all_entries:
  "length (entries (history s)) \<le> capacity (history s) \<Longrightarrow>
     entries (history (broadcast_all s bs)) =
       lastn (capacity (history s)) (entries (history s) @ map fst bs)"
proof (induction s bs rule: broadcast_all.induct)
  case (1 s)
  then show ?case by (simp add: lastn_id)
next
  case (2 s msg except rest)
  have "length (entries (history (Broadcast s msg except))) \<le> capacity (history (Broadcast s msg except))"
    by (simp add: Broadcast_history History_Add_def length_lastn)
  from "2.IH" [OF this] show ?case
    by (simp add: Broadcast_history History_Add_def lastn_lastn_append)
qed

text \<open>
  C9. With the history buffer as the specification describes it: after any sequence of
  \<^verbatim>\<open>Broadcast\<close> calls on a new server the buffer holds the last 20 messages of the
  sequence, in the order they were sent, so never more than 20, the oldest dropped first,
  and after 25 calls the messages 6 to 25; the same holds from any state whose buffer has
  capacity 20 and at most 20 entries. \<^verbatim>\<open>Add\<close> writes nothing to a terminal itself: it
  starts the goroutine. In whichever state \<open>t\<close> the goroutine of a participant runs, it
  writes to that participant's terminal the last 10 entries of the buffer of \<open>t\<close>, fewer if
  the buffer has fewer, and then the welcome line. When it runs after the broadcast of
  \<^verbatim>\<open>Add\<close>, the buffer it reads is the one the join announcement was added to.
\<close>

theorem history_bounded:
  "entries (history (broadcast_all (NewServer h) bs)) = lastn 20 (map fst bs) \<and>
   length (entries (history (broadcast_all (NewServer h) bs))) \<le> 20 \<and>
   (length bs = 25 \<longrightarrow> entries (history (broadcast_all (NewServer h) bs)) = drop 5 (map fst bs)) \<and>
   (capacity (history s) = HISTORY_LEN \<and> length (entries (history s)) \<le> HISTORY_LEN \<longrightarrow>
      entries (history (broadcast_all s bs)) = lastn 20 (entries (history s) @ map fst bs) \<and>
      length (entries (history (broadcast_all s bs))) \<le> 20) \<and>
   goroutines (Add s c) = goroutines s @ [c] \<and>
   Written (heap (Add s c) r) = Written (heap s r) \<and>
   Written (heap (Add_goroutine t c) c) =
     Written (heap t c) @ History_Get (history t) 10 @ [welcome_line] \<and>
   (r \<noteq> c \<longrightarrow> Written (heap (Add_goroutine t c) r) = Written (heap t r)) \<and>
   History_Get (history t) 10 = lastn 10 (entries (history t)) \<and>
   length (History_Get (history t) 10) \<le> 10 \<and>
   history (Add_goroutine t c) = history t \<and>
   entries (history (Add s c)) =
     lastn (capacity (history s)) (entries (history s) @ [join_announcement s c])"
proof -
  have init: "entries (history (broadcast_all (NewServer h) bs)) = lastn 20 (map fst bs)"
    using broadcast_all_entries [of "NewServer h" bs]
    by (simp add: NewServer_def NewHistory_def HISTORY_LEN_def)
  have gen: "entries (history (broadcast_all s bs)) = lastn 20 (entries (history s) @ map fst bs)"
    if "capacity (history s) = HISTORY_LEN" "length (entries (history s)) \<le> HISTORY_LEN"
    using that broadcast_all_entries [of s bs] by (simp add: HISTORY_LEN_def)
  have "lastn 20 (map fst bs) = drop 5 (map fst bs)" if "length bs = 25"
    using that by (simp add: lastn_def)
  with init gen show ?thesis
    by (simp add: length_lastn Add_Written Add_goroutines Add_goroutine_Written
        Add_goroutine_unchanged Add_history History_Get_def History_Add_def)
qed

theorem history_bounded_witness:
  "length broadcasts25 = 25 \<and>
   entries (history (broadcast_all (NewServer example_heap) broadcasts25)) =
     [''m06'', ''m07'', ''m08'', ''m09'', ''m10'', ''m11'', ''m12'', ''m13'', ''m14'', ''m15'',
      ''m16'', ''m17'', ''m18'', ''m19'', ''m20'', ''m21'', ''m22'', ''m23'', ''m24'', ''m25''] \<and>
   capacity (history room_example) = HISTORY_LEN \<and>
   length (entries (history room_example)) \<le> HISTORY_LEN \<and>
   length (entries (history (broadcast_all room_example broadcasts25))) \<le> 20 \<and>
   (1::nat) \<noteq> 0 \<and>
   Written (heap (Add_goroutine (NewServer example_heap) 0) 1) = [] \<and>
   Written (heap (Add (Add_goroutine (NewServer example_heap) 0) 0) 0) = [welcome_line] \<and>
   Written (heap (Add_goroutine (Add (NewServer example_heap) 0) 0) 0) =
     [''* alice joined. (Total connected: 1)'', welcome_line] \<and>
   Written (heap (Add_goroutine (broadcast_all (NewServer example_heap) broadcasts25) 0) 0) =
     [''m16'', ''m17'', ''m18'', ''m19'', ''m20'', ''m21'', ''m22'', ''m23'', ''m24'', ''m25'',
      welcome_line]"
proof -
  note t = history_bounded [where h = example_heap and bs = broadcasts25 and s = room_example
      and c = 0 and r = 1 and t = "NewServer example_heap"]
  note u = history_bounded [where h = example_heap and bs = broadcasts25
      and s = "Add_goroutine (NewServer example_heap) 0" and c = 0 and r = 0
      and t = "Add (NewServer example_heap) 0"]
  note v = history_bounded [where h = example_heap and bs = broadcasts25
      and s = "NewServer example_heap" and c = 0 and r = 0
      and t = "broadcast_all (NewServer example_heap) broadcasts25"]
  have len: "length broadcasts25 = 25"
    by (simp add: broadcasts25_def)
  have ok: "capacity (history room_example) = HISTORY_LEN \<and>
      length (entries (history room_example)) \<le> HISTORY_LEN"
    by (simp add: room_example_simps NewHistory_def)
  from t len have e: "entries (history (broadcast_all (NewServer example_heap) broadcasts25)) =
      drop 5 (map fst broadcasts25)"
    by blast
  from t ok have b: "length (entries (history (broadcast_all room_example broadcasts25))) \<le> 20"
    by blast
  have d: "drop 5 (map fst broadcasts25) =
     [''m06'', ''m07'', ''m08'', ''m09'', ''m10'', ''m11'', ''m12'', ''m13'', ''m14'', ''m15'',
      ''m16'', ''m17'', ''m18'', ''m19'', ''m20'', ''m21'', ''m22'', ''m23'', ''m24'', ''m25'']"
    by (simp add: broadcasts25_def)
  from t have w1: "Written (heap (Add_goroutine (NewServer example_heap) 0) 1) = []"
    by (simp add: NewServer_def example_heap_def)
  from u t have w2: "Written (heap (Add (Add_goroutine (NewServer example_heap) 0) 0) 0) = [welcome_line]"
    by (simp add: NewServer_def NewHistory_def example_heap_def lastn_def)
  from u have "Written (heap (Add_goroutine (Add (NewServer example_heap) 0) 0) 0) =
      Written (heap (Add (NewServer example_heap) 0) 0)
        @ lastn 10 (entries (history (Add (NewServer example_heap) 0))) @ [welcome_line]"
    by simp
  moreover from v have "Written (heap (Add (NewServer example_heap) 0) 0) = []"
    by (simp add: NewServer_def example_heap_def)
  moreover from v have "entries (history (Add (NewServer example_heap) 0)) =
      [''* alice joined. (Total connected: 1)'']"
    by (simp add: join_announcement_def resolve_spec spec_name_alice fmt_d_small int64_small
        NewServer_def NewHistory_def HISTORY_LEN_def example_heap_def lastn_def)
  ultimately have w3: "Written (heap (Add_goroutine (Add (NewServer example_heap) 0) 0) 0) =
     [''* alice joined. (Total connected: 1)'', welcome_line]"
    by (simp add: lastn_def)
  from v have "Written (heap (Add_goroutine (broadcast_all (NewServer example_heap) broadcasts25) 0) 0) =
      Written (heap (broadcast_all (NewServer example_heap) broadcasts25) 0)
        @ lastn 10 (entries (history (broadcast_all (NewServer example_heap) broadcasts25)))
        @ [welcome_line]"
    by simp
  moreover have "Written (heap (broadcast_all (NewServer example_heap) broadcasts25) 0) = []"
    by (simp add: broadcast_all_Written NewServer_def example_heap_def)
  ultimately have w4:
    "Written (heap (Add_goroutine (broadcast_all (NewServer example_heap) broadcasts25) 0) 0) =
       [''m16'', ''m17'', ''m18'', ''m19'', ''m20'', ''m21'', ''m22'', ''m23'', ''m24'', ''m25'',
        welcome_line]"
    by (simp add: e d lastn_def)
  from len ok e b d w1 w2 w3 w4 show ?thesis
    by simp
qed

end
